theory Spec2Isabelle
  imports Main
begin

section \<open>JavaScript values used by the user model\<close>

text \<open>
  The arguments of \<open>checkPassword\<close> and the values written by
  \<open>generateConfirmationKey\<close> are untyped JavaScript values. Numbers are modelled as
  integers (no NaN, no fractions), dates by their epoch milliseconds, strings as
  character lists (one \<open>char\<close> per UTF-16 unit of an ASCII string).
\<close>

datatype jsval =
    JUndefined
  | JNull
  | JBool bool
  | JNum int
  | JStr string
  | JDate int

datatype js_error = TypeError

text \<open>ToBoolean: what \<open>!v\<close>, \<open>v && ...\<close> and \<open>v || ...\<close> test.\<close>

fun truthy :: "jsval \<Rightarrow> bool" where
  "truthy JUndefined = False"
| "truthy JNull = False"
| "truthy (JBool b) = b"
| "truthy (JNum n) = (n \<noteq> 0)"
| "truthy (JStr s) = (s \<noteq> [])"
| "truthy (JDate t) = True"

text \<open>
  \<open>v.length\<close>: reading a property of \<open>undefined\<close> or \<open>null\<close> throws a TypeError;
  a string has its length; the other primitives and a Date have no such property
  (the read yields \<open>undefined\<close>, here \<open>None\<close>).
\<close>

fun js_length :: "jsval \<Rightarrow> js_error + nat option" where
  "js_length JUndefined = Inl TypeError"
| "js_length JNull = Inl TypeError"
| "js_length (JStr s) = Inr (Some (length s))"
| "js_length v = Inr None"

text \<open>\<open>len < n\<close> for the result of a \<open>length\<close> read: \<open>undefined < n\<close> is false.\<close>

fun length_lt :: "nat option \<Rightarrow> nat \<Rightarrow> bool" where
  "length_lt None n = False"
| "length_lt (Some l) n = (l < n)"

section \<open>The regular expression of the password policy\<close>

text \<open>
  The policy's pattern \<open>/[A-Z]+[a-z]+[0-9]+/\<close> is a sequence of character ranges,
  each repeated one or more times. A pattern of that shape is a list of ranges.
\<close>

datatype piece = RangePlus char char

type_synonym regexp = "piece list"

fun in_piece :: "piece \<Rightarrow> char \<Rightarrow> bool" where
  "in_piece (RangePlus lo hi) c =
     ((of_char lo :: nat) \<le> of_char c \<and> (of_char c :: nat) \<le> of_char hi)"

text \<open>A match that starts at the first character of the string.\<close>

fun match_at :: "regexp \<Rightarrow> string \<Rightarrow> bool" where
  "match_at [] s = True"
| "match_at (p # ps) [] = False"
| "match_at (p # ps) (c # cs) =
     (in_piece p c \<and> (match_at (p # ps) cs \<or> match_at ps cs))"

text \<open>
  \<open>s.match(re)\<close> with a pattern that has no anchor and no flag tries every start
  position; it returns \<open>null\<close> when none matches and an array (truthy) otherwise.
  \<open>regexp_search\<close> is the truth value of that result.
\<close>

fun regexp_search :: "regexp \<Rightarrow> string \<Rightarrow> bool" where
  "regexp_search re [] = match_at re []"
| "regexp_search re (c # cs) = (match_at re (c # cs) \<or> regexp_search re cs)"

text \<open>\<open>v.match(re)\<close>: only strings have the method; calling it on anything else throws.\<close>

fun js_match :: "jsval \<Rightarrow> regexp \<Rightarrow> js_error + bool" where
  "js_match (JStr s) re = Inr (regexp_search re s)"
| "js_match v re = Inl TypeError"

definition password_re :: regexp where
  "password_re =
     [RangePlus CHR ''A'' CHR ''Z'', RangePlus CHR ''a'' CHR ''z'', RangePlus CHR ''0'' CHR ''9'']"

section \<open>checkPassword\<close>

text \<open>
  \<^verbatim>\<open>
  function checkPassword(pwd, confirm_pwd){
    if( !pwd || pwd.length < 6 )
      return [ false, 'too_short' ];
    if( confirm_pwd && confirm_pwd !== pwd )
      return [ false, 'confirmation_missmatch' ];
    if( !pwd.match(/[A-Z]+[a-z]+[0-9]+/) )
      return [ false, 'requirements_not_met' ];
    return [ true ];
  }
  \<close>
  The result is the returned array; a thrown TypeError is \<open>Inl\<close>. An argument that is
  not passed is \<open>JUndefined\<close>. Strict inequality \<open>!==\<close> on the values modelled here is
  inequality of the values.
\<close>

definition checkPassword :: "jsval \<Rightarrow> jsval \<Rightarrow> js_error + jsval list" where
  "checkPassword pwd confirm_pwd =
     (if \<not> truthy pwd then Inr [JBool False, JStr ''too_short'']
      else (case js_length pwd of
        Inl e \<Rightarrow> Inl e
      | Inr len \<Rightarrow>
          (if length_lt len 6 then Inr [JBool False, JStr ''too_short'']
           else if truthy confirm_pwd \<and> confirm_pwd \<noteq> pwd
             then Inr [JBool False, JStr ''confirmation_missmatch'']
           else (case js_match pwd password_re of
             Inl e \<Rightarrow> Inl e
           | Inr m \<Rightarrow>
               (if \<not> m then Inr [JBool False, JStr ''requirements_not_met'']
                else Inr [JBool True])))))"

section \<open>The user record\<close>

text \<open>
  The fields of the schema that the operations below read or write, as the later
  revision of the user model names them (\<open>name.first\<close>, \<open>encryptedPassword\<close>,
  \<open>confirmation\<close>); the operations are those of that revision. \<open>_id\<close> is an
  ObjectId, kept as its hexadecimal string (what \<open>toString()\<close> gives). A field the
  schema does not require may be absent. The sub-document \<open>confirmation\<close> holds
  whatever \<open>generateConfirmationKey\<close> assigns, before the store casts it.
\<close>

type_synonym objectId = string

record confirmation =
  key :: "jsval option"
  expires :: "jsval option"
  tries :: "int option"

record user =
  uid :: objectId
  name_first :: "string option"
  name_last :: "string option"
  encryptedPassword :: "string option"
  salt :: string
  email :: string
  confirmation :: confirmation
  role :: int
  lastLoginAt :: "int option"
  lastRequestAt :: "int option"

text \<open>
  \<open>caminio.config\<close>: the optional list \<open>superusers\<close> and the session timeout in
  milliseconds.
\<close>

record config =
  superusers :: "string list option"
  session_timeout :: int

text \<open>A domain, as far as \<open>isAdmin\<close> reads it: its owner's ObjectId.\<close>

record domain =
  owner :: objectId

text \<open>
  The optional argument of \<open>isAdmin\<close>: nothing, an instance of the Domain model,
  or anything else (a group, an ObjectId, a string), which the \<open>instanceof\<close> test
  does not accept.
\<close>

datatype groupOrDomain = NoArgument | ADomain domain | NotADomain

section \<open>Credentials\<close>

text \<open>
  \<^verbatim>\<open>
  schema.method('encryptPassword', function(password) {
    return crypto.createHmac('sha256WithRSAEncryption', this.salt).update(password).digest('hex');
  });
  schema.method('authenticate', function(plainTextPassword) {
    return this.encryptPassword(plainTextPassword) === this.encryptedPassword;
  });
  \<close>
  The keyed digest of Node's \<open>crypto\<close> module is a parameter \<open>hmac key message\<close>
  giving the hexadecimal digest.
\<close>

definition encryptPassword :: "(string \<Rightarrow> string \<Rightarrow> string) \<Rightarrow> user \<Rightarrow> string \<Rightarrow> string" where
  "encryptPassword hmac u password = hmac (salt u) password"

definition authenticate :: "(string \<Rightarrow> string \<Rightarrow> string) \<Rightarrow> user \<Rightarrow> string \<Rightarrow> bool" where
  "authenticate hmac u plainTextPassword =
     (Some (encryptPassword hmac u plainTextPassword) = encryptedPassword u)"

section \<open>Authorization tiers\<close>

text \<open>
  \<^verbatim>\<open>
  schema.method('isSuperUser', function(){
    return caminio.config.superusers && caminio.config.superusers.indexOf(this.email) >= 0;
  });
  \<close>
  The result is used as a condition only; the model gives its truth value (an absent
  list is falsy, an array is truthy even when empty).
\<close>

definition isSuperUser :: "config \<Rightarrow> user \<Rightarrow> bool" where
  "isSuperUser cfg u =
     (case superusers cfg of None \<Rightarrow> False | Some es \<Rightarrow> email u \<in> set es)"

text \<open>
  \<^verbatim>\<open>
  schema.method('isAdmin', function(groupOrDomain){
    if( this.isSuperUser() )
      return true;
    if( groupOrDomain instanceof caminio.models.Domain )
      return groupOrDomain.owner.equals( this._id.toString() );
    return this.role <= 5;
  });
  schema.virtual('admin').get(function(){
    if( this.isSuperUser() )
      return true;
    return this.role <= 5;
  });
  \<close>
\<close>

fun isAdmin :: "config \<Rightarrow> user \<Rightarrow> groupOrDomain \<Rightarrow> bool" where
  "isAdmin cfg u (ADomain d) =
     (if isSuperUser cfg u then True else owner d = uid u)"
| "isAdmin cfg u g =
     (if isSuperUser cfg u then True else role u \<le> 5)"

definition admin :: "config \<Rightarrow> user \<Rightarrow> bool" where
  "admin cfg u = (if isSuperUser cfg u then True else role u \<le> 5)"

section \<open>Confirmation keys\<close>

text \<open>
  \<^verbatim>\<open>
  schema.method('generateConfirmationKey', function() {
    this.confirmation.key = caminioUtil.uid(8);
    this.confirmation.expires = new Date()+1800*1000;
    this.confirmation.tries = this.confirmation.tries || 0;
    this.confirmation.tries += 1;
  });
  \<close>
  The operator \<open>+\<close> first converts an object operand to a primitive, and a Date
  converts to its string form (\<open>toString()\<close>); with a string operand \<open>+\<close> is
  concatenation, so the number is rendered in decimal and appended. The engine's
  \<open>Date.prototype.toString\<close> is the parameter \<open>dateString\<close>.
\<close>

fun digits10 :: "nat \<Rightarrow> string" where
  "digits10 n =
     (if n < 10 then [''0123456789'' ! n]
      else digits10 (n div 10) @ [''0123456789'' ! (n mod 10)])"

definition number_toString :: "int \<Rightarrow> string" where
  "number_toString i =
     (if i < 0 then CHR ''-'' # digits10 (nat (- i)) else digits10 (nat i))"

definition date_plus_number :: "(int \<Rightarrow> string) \<Rightarrow> int \<Rightarrow> int \<Rightarrow> jsval" where
  "date_plus_number dateString d n = JStr (dateString d @ number_toString n)"

text \<open>
  \<open>caminioUtil.uid\<close> belongs to another package; it is the parameter \<open>util_uid\<close>.
  \<open>now\<close> is what \<open>new Date()\<close> reads.
\<close>

definition generateConfirmationKey ::
  "(nat \<Rightarrow> string) \<Rightarrow> (int \<Rightarrow> string) \<Rightarrow> int \<Rightarrow> user \<Rightarrow> user" where
  "generateConfirmationKey util_uid dateString now u =
     (let c1 = (confirmation u)\<lparr>key := Some (JStr (util_uid 8))\<rparr>;
          c2 = c1\<lparr>expires := Some (date_plus_number dateString now (1800 * 1000))\<rparr>;
          c3 = c2\<lparr>tries := Some (case tries c2 of
                                   None \<Rightarrow> 0
                                 | Some t \<Rightarrow> (if t \<noteq> 0 then t else 0))\<rparr>;
          c4 = c3\<lparr>tries := map_option (\<lambda>t. t + 1) (tries c3)\<rparr>
      in u\<lparr>confirmation := c4\<rparr>)"

section \<open>Public attributes\<close>

text \<open>
  \<^verbatim>\<open>
  schema.publicAttributes = [
    'name.first', 'name.last', 'name.full', 'email',
    'lastLoginAt', 'lastRequestAt', 'superuser', 'admin'
  ];
  \<close>
\<close>

definition publicAttributes :: "string list" where
  "publicAttributes =
     [''name.first'', ''name.last'', ''name.full'', ''email'',
      ''lastLoginAt'', ''lastRequestAt'', ''superuser'', ''admin'']"

text \<open>
  Modelled from the spec: the function that serializes an identity for an untrusted
  consumer is missing from the sources, which only declare the list above. The spec
  says the public projection exposes only the allow-listed attribute set. An identity
  with an arbitrary set of fields is a list of attribute paths with their values; the
  projection keeps the entries whose path is in \<open>publicAttributes\<close>.
\<close>

definition publicProjection :: "(string \<times> jsval) list \<Rightarrow> (string \<times> jsval) list" where
  "publicProjection doc = filter (\<lambda>kv. fst kv \<in> set publicAttributes) doc"

section \<open>Session hooks\<close>

text \<open>
  The store (the User model of mongoose) and the clock are the environment of the
  hooks. A query hands its callback an error or a document or neither; an update
  hands its callback an error or nothing. \<open>new Date()\<close> is read twice by
  \<open>deserialize\<close>: for the staleness test and for the value written.
\<close>

datatype store_error = StoreError string

datatype store_op =
    FindOne objectId
  | Update objectId int

record world =
  exec_findOne :: "objectId \<Rightarrow> store_error option \<times> user option"
  exec_update :: "user \<Rightarrow> int \<Rightarrow> store_error option"
  date_at_test :: int
  date_at_update :: int

text \<open>
  \<^verbatim>\<open>
  function serialize(user, done) {
    done(null, user.id);
  }
  \<close>
\<close>

definition serialize :: "user \<Rightarrow> store_error option \<times> objectId" where
  "serialize u = (None, uid u)"

text \<open>
  \<^verbatim>\<open>
  function deserialize( id, done ){
    caminio.models.User.findOne({ _id: id })
    .populate('camDomains')
    .exec( function(err, user ){
      if( err ){ return done( err ); }
      if( user ){
        if( !user.lastRequestAt || user.lastRequestAt.getTime() < (new Date()) - ( caminio.config.session.timeout ) )
          return done( null, null );
        user.update({ lastRequestAt: new Date() }, function( err ){
          done( err, user );
        });
      } else {
        done( err, user );
      }
    });
  }
  \<close>
  \<open>stale\<close> is the condition of the inner \<open>if\<close>. \<open>deserialize\<close> gives the operations
  it issued to the store, in order, and the two arguments \<open>done\<close> is called with
  (an absent or \<open>null\<close> argument is \<open>None\<close>). \<open>done\<close> is called once on every path; on
  the path that writes, it is called from the callback of the update, with the error
  that callback received.
\<close>

definition stale :: "config \<Rightarrow> int \<Rightarrow> user \<Rightarrow> bool" where
  "stale cfg now u =
     (case lastRequestAt u of
        None \<Rightarrow> True
      | Some t \<Rightarrow> t < now - session_timeout cfg)"

definition deserialize ::
  "config \<Rightarrow> world \<Rightarrow> objectId \<Rightarrow> store_op list \<times> store_error option \<times> user option" where
  "deserialize cfg w ident =
     (case exec_findOne w ident of
        (Some e, usr) \<Rightarrow> ([FindOne ident], Some e, None)
      | (None, Some u) \<Rightarrow>
          (if stale cfg (date_at_test w) u then ([FindOne ident], None, None)
           else ([FindOne ident, Update (uid u) (date_at_update w)],
                 exec_update w u (date_at_update w), Some u))
      | (None, None) \<Rightarrow> ([FindOne ident], None, None))"

section \<open>Notions used in the statements\<close>

text \<open>The three character ranges of the policy's pattern.\<close>

abbreviation uppercase :: piece where
  "uppercase \<equiv> RangePlus CHR ''A'' CHR ''Z''"

abbreviation lowercase :: piece where
  "lowercase \<equiv> RangePlus CHR ''a'' CHR ''z''"

abbreviation digit :: piece where
  "digit \<equiv> RangePlus CHR ''0'' CHR ''9''"

text \<open>A non-empty block of characters, all in the range of \<open>p\<close>.\<close>

definition run_of :: "piece \<Rightarrow> string \<Rightarrow> bool" where
  "run_of p b = (b \<noteq> [] \<and> list_all (in_piece p) b)"

text \<open>
  The requirement in the words of the specification, for comparison with the pattern:
  the string contains a character of the first range, later one of the second, later
  one of the third, and so on (the characters need not be adjacent).
\<close>

fun contains_in_relative_order :: "piece list \<Rightarrow> string \<Rightarrow> bool" where
  "contains_in_relative_order [] s = True"
| "contains_in_relative_order (p # ps) [] = False"
| "contains_in_relative_order (p # ps) (c # cs) =
     (if in_piece p c then contains_in_relative_order ps cs
      else contains_in_relative_order (p # ps) cs)"

text \<open>
  Staleness in the words of the specification, for comparison with \<open>stale\<close>: the time
  since \<open>lastRequestAt\<close> exceeds the session timeout, and a missing \<open>lastRequestAt\<close>
  is never stale.
\<close>

definition spec_stale :: "config \<Rightarrow> int \<Rightarrow> user \<Rightarrow> bool" where
  "spec_stale cfg now u =
     (case lastRequestAt u of
        None \<Rightarrow> False
      | Some t \<Rightarrow> session_timeout cfg < now - t)"

text \<open>Sample data: a user, a configuration and an environment of the session hooks.\<close>

definition sample_user :: "int option \<Rightarrow> user" where
  "sample_user lra =
     \<lparr>uid = ''52d6a1f04c3b2a1908f7e6d5'',
      name_first = Some ''Henry'', name_last = Some ''King'',
      encryptedPassword = Some ''1389790012345:secret1A'',
      salt = ''1389790012345'',
      email = ''henry@example.com'',
      confirmation = \<lparr>key = None, expires = None, tries = None\<rparr>,
      role = 50,
      lastLoginAt = Some 1389790000000,
      lastRequestAt = lra\<rparr>"

definition sample_config :: config where
  "sample_config = \<lparr>superusers = Some [''admin@example.com''], session_timeout = 5000\<rparr>"

definition sample_world :: "store_error option \<times> user option \<Rightarrow> store_error option \<Rightarrow> world" where
  "sample_world found written =
     \<lparr>exec_findOne = (\<lambda>i. found),
      exec_update = (\<lambda>u t. written),
      date_at_test = 1389790600000,
      date_at_update = 1389790600002\<rparr>"

text \<open>A stand-in for the keyed digest, for evaluating \<open>authenticate\<close> on sample data.\<close>

definition sample_hmac :: "string \<Rightarrow> string \<Rightarrow> string" where
  "sample_hmac k m = k @ '':'' @ m"

section \<open>What the pattern accepts\<close>

text \<open>
  A match at the start of a string splits a prefix of it into one non-empty block per
  range of the pattern; a search finds such a match at some position.
\<close>

lemma match_at_blocks:
  "match_at ps s \<longleftrightarrow> (\<exists>bs rest. s = concat bs @ rest \<and> list_all2 run_of ps bs)"
proof (induction s arbitrary: ps)
  case Nil
  show ?case by (cases ps) (auto simp: list_all2_Cons1 run_of_def)
next
  case (Cons c cs)
  show ?case
  proof (cases ps)
    case Nil
    then show ?thesis by simp
  next
    case (Cons p qs)
    show ?thesis
    proof
      assume "match_at ps (c # cs)"
      then have pc: "in_piece p c" and alt: "match_at (p # qs) cs \<or> match_at qs cs"
        using Cons by simp_all
      from alt show "\<exists>bs rest. c # cs = concat bs @ rest \<and> list_all2 run_of ps bs"
      proof
        assume "match_at (p # qs) cs"
        then obtain bs rest where cs: "cs = concat bs @ rest" and all: "list_all2 run_of (p # qs) bs"
          using Cons.IH by blast
        from all obtain b bs' where bs: "bs = b # bs'" and b: "run_of p b" and rest: "list_all2 run_of qs bs'"
          by (auto simp: list_all2_Cons1)
        have "c # cs = concat ((c # b) # bs') @ rest" using cs bs by simp
        moreover have "list_all2 run_of ps ((c # b) # bs')"
          using Cons b rest pc by (simp add: run_of_def)
        ultimately show ?thesis by blast
      next
        assume "match_at qs cs"
        then obtain bs rest where cs: "cs = concat bs @ rest" and all: "list_all2 run_of qs bs"
          using Cons.IH by blast
        have "c # cs = concat ([c] # bs) @ rest" using cs by simp
        moreover have "list_all2 run_of ps ([c] # bs)"
          using Cons all pc by (simp add: run_of_def)
        ultimately show ?thesis by blast
      qed
    next
      assume "\<exists>bs rest. c # cs = concat bs @ rest \<and> list_all2 run_of ps bs"
      then obtain b bs' rest where eq: "c # cs = concat (b # bs') @ rest"
        and rb: "run_of p b" and rest: "list_all2 run_of qs bs'"
        using Cons by (auto simp: list_all2_Cons1)
      from rb eq obtain b' where b: "b = c # b'"
        by (cases b) (auto simp: run_of_def)
      have pc: "in_piece p c" using rb b by (simp add: run_of_def)
      have "match_at (p # qs) cs \<or> match_at qs cs"
      proof (cases b')
        case Nil
        then have "cs = concat bs' @ rest" using eq b by simp
        with rest have "match_at qs cs" using Cons.IH by blast
        then show ?thesis ..
      next
        case (Cons x xs)
        then have "cs = concat (b' # bs') @ rest" and "run_of p b'"
          using eq b rb by (simp_all add: run_of_def)
        with rest have "\<exists>bs rest. cs = concat bs @ rest \<and> list_all2 run_of (p # qs) bs"
          by (intro exI[of _ "b' # bs'"] exI[of _ rest]) simp
        then have "match_at (p # qs) cs" using Cons.IH by blast
        then show ?thesis ..
      qed
      with pc show "match_at ps (c # cs)" using \<open>ps = p # qs\<close> by simp
    qed
  qed
qed

lemma regexp_search_suffix:
  "regexp_search re s \<longleftrightarrow> (\<exists>pre suf. s = pre @ suf \<and> match_at re suf)"
proof (induction s)
  case Nil
  show ?case by simp
next
  case (Cons c cs)
  show ?case
  proof
    assume "regexp_search re (c # cs)"
    then consider "match_at re (c # cs)" | "regexp_search re cs" by auto
    then show "\<exists>pre suf. c # cs = pre @ suf \<and> match_at re suf"
    proof cases
      case 1
      then show ?thesis by (intro exI[of _ "[]"] exI[of _ "c # cs"]) simp
    next
      case 2
      then obtain pre suf where "cs = pre @ suf" "match_at re suf" using Cons.IH by blast
      then show ?thesis by (intro exI[of _ "c # pre"] exI[of _ suf]) simp
    qed
  next
    assume "\<exists>pre suf. c # cs = pre @ suf \<and> match_at re suf"
    then obtain pre suf where eq: "c # cs = pre @ suf" and m: "match_at re suf" by blast
    show "regexp_search re (c # cs)"
    proof (cases pre)
      case Nil
      then have "suf = c # cs" using eq by simp
      then show ?thesis using m by simp
    next
      case (Cons x xs)
      then have "cs = xs @ suf" using eq by simp
      with m have "regexp_search re cs" using Cons.IH by blast
      then show ?thesis by simp
    qed
  qed
qed

lemma password_re_search:
  "regexp_search password_re s \<longleftrightarrow>
     (\<exists>pre us ls ds post. s = pre @ us @ ls @ ds @ post \<and>
        run_of uppercase us \<and> run_of lowercase ls \<and> run_of digit ds)"
proof
  assume "regexp_search password_re s"
  then obtain pre bs rest where s: "s = pre @ concat bs @ rest"
    and bs: "list_all2 run_of password_re bs"
    unfolding regexp_search_suffix match_at_blocks by blast
  from bs obtain us ls ds where "bs = [us, ls, ds]"
    and "run_of uppercase us" "run_of lowercase ls" "run_of digit ds"
    by (auto simp: password_re_def list_all2_Cons1)
  with s show "\<exists>pre us ls ds post. s = pre @ us @ ls @ ds @ post \<and>
      run_of uppercase us \<and> run_of lowercase ls \<and> run_of digit ds"
    by (intro exI[of _ pre] exI[of _ us] exI[of _ ls] exI[of _ ds] exI[of _ rest]) simp
next
  assume "\<exists>pre us ls ds post. s = pre @ us @ ls @ ds @ post \<and>
      run_of uppercase us \<and> run_of lowercase ls \<and> run_of digit ds"
  then obtain pre us ls ds post where s: "s = pre @ us @ ls @ ds @ post"
    and r: "run_of uppercase us" "run_of lowercase ls" "run_of digit ds" by blast
  have "list_all2 run_of password_re [us, ls, ds]"
    using r by (simp add: password_re_def)
  moreover have "us @ ls @ ds @ post = concat [us, ls, ds] @ post" by simp
  ultimately have "match_at password_re (us @ ls @ ds @ post)"
    unfolding match_at_blocks by blast
  with s show "regexp_search password_re s"
    unfolding regexp_search_suffix by blast
qed

lemma in_order_weaken:
  "(contains_in_relative_order (p # ps) s \<longrightarrow> contains_in_relative_order ps s) \<and>
   (contains_in_relative_order qs s \<longrightarrow> contains_in_relative_order qs (c # s))"
proof (induction s arbitrary: p ps qs c)
  case Nil
  show ?case by (cases qs) simp_all
next
  case (Cons d ds)
  have drop: "contains_in_relative_order rs (d # ds)"
    if "contains_in_relative_order (r # rs) (d # ds)" for r rs
  proof (cases "in_piece r d")
    case True
    with that have "contains_in_relative_order rs ds" by simp
    then show ?thesis using Cons.IH by blast
  next
    case False
    with that have "contains_in_relative_order (r # rs) ds" by simp
    then have "contains_in_relative_order rs ds" using Cons.IH by blast
    then show ?thesis using Cons.IH by blast
  qed
  have "contains_in_relative_order qs (c # d # ds)"
    if "contains_in_relative_order qs (d # ds)"
  proof (cases qs)
    case Nil
    then show ?thesis by simp
  next
    case (Cons a l)
    with that drop have "contains_in_relative_order l (d # ds)" by blast
    with that Cons show ?thesis by simp
  qed
  with drop show ?case by blast
qed

lemma match_at_in_order:
  "match_at ps s \<Longrightarrow> contains_in_relative_order ps s"
proof (induction s arbitrary: ps)
  case Nil
  then show ?case by (cases ps) simp_all
next
  case (Cons c cs)
  show ?case
  proof (cases ps)
    case Nil
    then show ?thesis by simp
  next
    case (Cons p qs)
    with Cons.prems have pc: "in_piece p c"
      and alt: "match_at (p # qs) cs \<or> match_at qs cs" by simp_all
    from alt have "contains_in_relative_order qs cs"
      using Cons.IH in_order_weaken by blast
    with pc Cons show ?thesis by simp
  qed
qed

lemma search_in_order:
  "regexp_search ps s \<Longrightarrow> contains_in_relative_order ps s"
proof (induction s)
  case Nil
  then show ?case by (simp add: match_at_in_order)
next
  case (Cons c cs)
  then show ?case
    using match_at_in_order in_order_weaken by (metis regexp_search.simps(2))
qed

section \<open>The password policy\<close>

text \<open>
  Claim C10. \<open>checkPassword\<close> returns the \<open>too_short\<close> failure, and raises nothing,
  when \<open>pwd\<close> is \<open>null\<close>, \<open>undefined\<close> or the empty string, whatever the confirmation
  argument is: the test \<open>!pwd\<close> comes first, so the property \<open>length\<close> of \<open>null\<close> or
  \<open>undefined\<close>, whose read would throw a TypeError, is never read.
\<close>

theorem checkPassword_absent_too_short:
  "checkPassword JNull c = Inr [JBool False, JStr ''too_short'']
   \<and> checkPassword JUndefined c = Inr [JBool False, JStr ''too_short'']
   \<and> checkPassword (JStr '''') c = Inr [JBool False, JStr ''too_short'']
   \<and> js_length JNull = Inl TypeError \<and> js_length JUndefined = Inl TypeError"
  by (simp add: checkPassword_def)

text \<open>
  Claim C5, as stated, fails: with a password of seven characters and the empty string
  given as confirmation, which differs from the password, the confirmation is not
  compared and the call succeeds.
\<close>

theorem checkPassword_empty_confirmation_counterexample:
  "6 \<le> length ''Abcdef1'' \<and> JStr '''' \<noteq> JStr ''Abcdef1''
   \<and> checkPassword (JStr ''Abcdef1'') (JStr '''') = Inr [JBool True]"
  by (simp add: checkPassword_def password_re_def)

text \<open>
  Claim C5, amended. The length is checked before the confirmation: a string \<open>pwd\<close>
  shorter than 6 gives \<open>[false, 'too_short']\<close> whatever the confirmation is; a \<open>pwd\<close>
  of length at least 6 with a truthy confirmation (not absent, not the empty string)
  that differs from it gives \<open>[false, 'confirmation_missmatch']\<close>, the tag as the code
  spells it.
\<close>

theorem checkPassword_length_before_confirmation:
  "(length s < 6 \<longrightarrow> checkPassword (JStr s) c = Inr [JBool False, JStr ''too_short''])
   \<and> (6 \<le> length s \<and> truthy c \<and> c \<noteq> JStr s \<longrightarrow>
        checkPassword (JStr s) c = Inr [JBool False, JStr ''confirmation_missmatch''])"
proof (intro conjI impI)
  assume "length s < 6"
  then show "checkPassword (JStr s) c = Inr [JBool False, JStr ''too_short'']"
    by (simp add: checkPassword_def)
next
  assume a: "6 \<le> length s \<and> truthy c \<and> c \<noteq> JStr s"
  then have "s \<noteq> []" by auto
  with a show "checkPassword (JStr s) c = Inr [JBool False, JStr ''confirmation_missmatch'']"
    by (simp add: checkPassword_def)
qed

text \<open>Claim C5, amended, on the two examples of the specification.\<close>

theorem checkPassword_length_before_confirmation_witness:
  "checkPassword (JStr ''short'') (JStr ''different'') = Inr [JBool False, JStr ''too_short'']
   \<and> checkPassword (JStr ''abcdefgh'') (JStr ''different'')
       = Inr [JBool False, JStr ''confirmation_missmatch'']"
  using checkPassword_length_before_confirmation [of "''short''" "JStr ''different''"]
    checkPassword_length_before_confirmation [of "''abcdefgh''" "JStr ''different''"]
  by simp

text \<open>
  Claim C6, as stated, fails: \<open>AbcdefG1\<close> contains an uppercase letter, later a
  lowercase letter and later a digit, and is rejected with \<open>requirements_not_met\<close>,
  because no digit follows a lowercase letter directly.
\<close>

theorem checkPassword_relative_order_counterexample:
  "6 \<le> length ''AbcdefG1''
   \<and> contains_in_relative_order password_re ''AbcdefG1''
   \<and> checkPassword (JStr ''AbcdefG1'') JUndefined
       = Inr [JBool False, JStr ''requirements_not_met'']"
  by (simp add: checkPassword_def password_re_def)

text \<open>
  Claim C6, amended. For a string \<open>pwd\<close> of length at least 6 whose confirmation is
  absent, empty or equal to it, \<open>checkPassword\<close> succeeds exactly when \<open>pwd\<close> contains
  a contiguous run of one or more uppercase letters, directly followed by one or more
  lowercase letters, directly followed by one or more digits; otherwise the result is
  \<open>[false, 'requirements_not_met']\<close>.
\<close>

theorem checkPassword_requirements:
  assumes "6 \<le> length s" and "\<not> truthy c \<or> c = JStr s"
  shows "checkPassword (JStr s) c =
     (if (\<exists>pre us ls ds post. s = pre @ us @ ls @ ds @ post \<and>
            run_of uppercase us \<and> run_of lowercase ls \<and> run_of digit ds)
      then Inr [JBool True]
      else Inr [JBool False, JStr ''requirements_not_met''])"
proof -
  from assms(1) have "s \<noteq> []" and "\<not> length s < 6" by auto
  moreover from assms(2) have "\<not> (truthy c \<and> c \<noteq> JStr s)" by blast
  ultimately have "checkPassword (JStr s) c =
     (if regexp_search password_re s then Inr [JBool True]
      else Inr [JBool False, JStr ''requirements_not_met''])"
    by (simp add: checkPassword_def)
  then show ?thesis
    by (simp only: password_re_search)
qed

text \<open>Claim C6, amended, on the accepted example \<open>Abcdef1\<close> of the specification.\<close>

theorem checkPassword_requirements_witness:
  "6 \<le> length ''Abcdef1''
   \<and> (\<exists>pre us ls ds post. ''Abcdef1'' = pre @ us @ ls @ ds @ post \<and>
          run_of uppercase us \<and> run_of lowercase ls \<and> run_of digit ds)
   \<and> checkPassword (JStr ''Abcdef1'') JUndefined = Inr [JBool True]"
proof -
  have len: "6 \<le> length ''Abcdef1''" by simp
  have conf: "\<not> truthy JUndefined \<or> JUndefined = JStr ''Abcdef1''" by simp
  have ex: "\<exists>pre us ls ds post. ''Abcdef1'' = pre @ us @ ls @ ds @ post \<and>
          run_of uppercase us \<and> run_of lowercase ls \<and> run_of digit ds"
    by (intro exI[of _ "[]"] exI[of _ "''A''"] exI[of _ "''bcdef''"] exI[of _ "''1''"])
      (simp add: run_of_def)
  from checkPassword_requirements [OF len conf] ex len show ?thesis by simp
qed

section \<open>Credential comparison\<close>

text \<open>
  Claim C3. \<open>authenticate\<close> is true exactly when the stored hashed password is the
  digest of the plaintext under the identity's salt, and the digest that
  \<open>encryptPassword\<close> computes is a function of the plaintext and the salt alone: two
  identities with the same salt give the same digest for the same plaintext. (The
  keyed digest of the crypto library is taken as a function of its key and message.)
\<close>

theorem authenticate_iff_hash_matches:
  "(authenticate hmac u plaintext \<longleftrightarrow> encryptedPassword u = Some (hmac (salt u) plaintext))
   \<and> encryptPassword hmac u plaintext = hmac (salt u) plaintext
   \<and> (salt u' = salt u \<longrightarrow>
        encryptPassword hmac u' plaintext = encryptPassword hmac u plaintext)"
  by (auto simp: authenticate_def encryptPassword_def)

text \<open>
  Claim C3 on the sample user: the right plaintext authenticates, another one does not,
  and the digest does not depend on the other fields of the record.
\<close>

theorem authenticate_iff_hash_matches_witness:
  "authenticate sample_hmac (sample_user None) ''secret1A''
   \<and> \<not> authenticate sample_hmac (sample_user None) ''secret1B''
   \<and> encryptPassword sample_hmac (sample_user (Some 7)) ''secret1A''
       = encryptPassword sample_hmac (sample_user None) ''secret1A''"
proof -
  have s: "salt (sample_user (Some 7)) = salt (sample_user None)"
    by (simp add: sample_user_def)
  have a: "encryptedPassword (sample_user None)
      = Some (sample_hmac (salt (sample_user None)) ''secret1A'')"
    by (simp add: sample_user_def sample_hmac_def)
  have b: "encryptedPassword (sample_user None)
      \<noteq> Some (sample_hmac (salt (sample_user None)) ''secret1B'')"
    by (simp add: sample_user_def sample_hmac_def)
  from authenticate_iff_hash_matches
      [of sample_hmac "sample_user None" "''secret1A''" "sample_user (Some 7)"]
    authenticate_iff_hash_matches
      [of sample_hmac "sample_user None" "''secret1B''" "sample_user (Some 7)"]
    s a b
  show ?thesis by blast
qed

section \<open>Administrators\<close>

text \<open>
  Claim C8. For an identity that is not a superuser and whose role is above 5,
  \<open>isAdmin\<close> with a domain is true exactly when the domain's owner is the identity,
  while the derived property \<open>admin\<close>, which is \<open>isSuperUser() or role <= 5\<close>, is
  false, as is \<open>isAdmin\<close> without an argument: only \<open>isAdmin\<close> with a domain reaches
  the ownership test.
\<close>

theorem isAdmin_domain_owner_only_with_context:
  assumes "\<not> isSuperUser cfg u" and "5 < role u"
  shows "(isAdmin cfg u (ADomain d) \<longleftrightarrow> owner d = uid u)
   \<and> (admin cfg u \<longleftrightarrow> isSuperUser cfg u \<or> role u \<le> 5)
   \<and> \<not> admin cfg u
   \<and> \<not> isAdmin cfg u NoArgument"
  using assms by (simp add: admin_def)

text \<open>
  Claim C8 on the sample user (role 50, not in the list of superusers): administrator of
  the domain it owns, not of another one, and \<open>admin\<close> is false.
\<close>

theorem isAdmin_domain_owner_only_with_context_witness:
  "isAdmin sample_config (sample_user None) (ADomain \<lparr>owner = ''52d6a1f04c3b2a1908f7e6d5''\<rparr>)
   \<and> \<not> isAdmin sample_config (sample_user None) (ADomain \<lparr>owner = ''52d6a1f04c3b2a1908f7e6d6''\<rparr>)
   \<and> \<not> admin sample_config (sample_user None)"
proof -
  have su: "\<not> isSuperUser sample_config (sample_user None)"
    by (simp add: isSuperUser_def sample_config_def sample_user_def)
  have r: "5 < role (sample_user None)"
    by (simp add: sample_user_def)
  have o1: "owner \<lparr>owner = ''52d6a1f04c3b2a1908f7e6d5''\<rparr> = uid (sample_user None)"
    by (simp add: sample_user_def)
  have o2: "owner \<lparr>owner = ''52d6a1f04c3b2a1908f7e6d6''\<rparr> \<noteq> uid (sample_user None)"
    by (simp add: sample_user_def)
  from isAdmin_domain_owner_only_with_context [OF su r, of "\<lparr>owner = ''52d6a1f04c3b2a1908f7e6d5''\<rparr>"]
    isAdmin_domain_owner_only_with_context [OF su r, of "\<lparr>owner = ''52d6a1f04c3b2a1908f7e6d6''\<rparr>"]
    o1 o2
  show ?thesis by blast
qed

section \<open>The confirmation key\<close>

text \<open>
  Claim C7 asks for an expiry about 30 minutes after the call. In the code, the value
  assigned to \<open>confirmation.expires\<close> is the string form of the current date with
  the text \<open>1800000\<close> appended, for every identity and every time of the call; it is
  never the date 1800000 milliseconds later. The counter \<open>tries\<close> is incremented from
  its value, or from 0 when absent, and the key is what \<open>uid(8)\<close> returns.
\<close>

theorem generateConfirmationKey_expires_is_string:
  "expires (confirmation (generateConfirmationKey util_uid dateString now u))
     = Some (JStr (dateString now @ ''1800000''))
   \<and> expires (confirmation (generateConfirmationKey util_uid dateString now u))
     \<noteq> Some (JDate (now + 1800 * 1000))
   \<and> tries (confirmation (generateConfirmationKey util_uid dateString now u))
     = Some ((case tries (confirmation u) of None \<Rightarrow> 0 | Some t \<Rightarrow> t) + 1)
   \<and> key (confirmation (generateConfirmationKey util_uid dateString now u))
     = Some (JStr (util_uid 8))"
  by (simp add: generateConfirmationKey_def date_plus_number_def number_toString_def
      split: option.split)

section \<open>The public projection\<close>

text \<open>
  Claim C9. Whatever fields an identity has, the paths of its public projection are
  among the eight allow-listed attributes (the name parts, the full name, the email,
  \<open>lastLoginAt\<close>, \<open>lastRequestAt\<close>, \<open>superuser\<close>, \<open>admin\<close>), and neither \<open>salt\<close> nor
  \<open>encryptedPassword\<close> is one of them.
\<close>

theorem publicProjection_allow_listed:
  "set (map fst (publicProjection doc)) \<subseteq> set publicAttributes
   \<and> set publicAttributes =
       {''name.first'', ''name.last'', ''name.full'', ''email'',
        ''lastLoginAt'', ''lastRequestAt'', ''superuser'', ''admin''}
   \<and> ''salt'' \<notin> set (map fst (publicProjection doc))
   \<and> ''encryptedPassword'' \<notin> set (map fst (publicProjection doc))"
proof -
  have sub: "set (map fst (publicProjection doc)) \<subseteq> set publicAttributes"
    by (auto simp: publicProjection_def)
  have "''salt'' \<notin> set publicAttributes" and "''encryptedPassword'' \<notin> set publicAttributes"
    by (simp_all add: publicAttributes_def)
  with sub show ?thesis
    by (auto simp: publicAttributes_def)
qed

section \<open>Session revalidation\<close>

text \<open>
  Claim C1, as stated, fails: the sample user has no \<open>lastRequestAt\<close> and is found by
  the store, and \<open>deserialize\<close> calls \<open>done(null, null)\<close> without issuing an update.
\<close>

theorem deserialize_absent_lastRequestAt_counterexample:
  "lastRequestAt (sample_user None) = None
   \<and> exec_findOne (sample_world (None, Some (sample_user None)) None) ''52d6a1f04c3b2a1908f7e6d5''
       = (None, Some (sample_user None))
   \<and> deserialize sample_config (sample_world (None, Some (sample_user None)) None)
        ''52d6a1f04c3b2a1908f7e6d5''
       = ([FindOne ''52d6a1f04c3b2a1908f7e6d5''], None, None)"
  by (simp add: deserialize_def stale_def sample_world_def sample_user_def)

text \<open>
  Claim C1, amended. For every identity found by the store whose \<open>lastRequestAt\<close> is
  absent, \<open>deserialize\<close> treats the session as expired: it resolves to no user, with
  no error, and issues no update of \<open>lastRequestAt\<close>.
\<close>

theorem deserialize_absent_lastRequestAt:
  assumes "exec_findOne w ident = (None, Some u)" and "lastRequestAt u = None"
  shows "deserialize cfg w ident = ([FindOne ident], None, None)"
  using assms by (simp add: deserialize_def stale_def)

text \<open>
  Claim C1, amended, on the sample user, with a store whose update would fail: the
  update is not attempted.
\<close>

theorem deserialize_absent_lastRequestAt_witness:
  "deserialize sample_config (sample_world (None, Some (sample_user None)) (Some (StoreError ''down'')))
     ''52d6a1f04c3b2a1908f7e6d5''
   = ([FindOne ''52d6a1f04c3b2a1908f7e6d5''], None, None)"
proof -
  have f: "exec_findOne (sample_world (None, Some (sample_user None)) (Some (StoreError ''down'')))
      ''52d6a1f04c3b2a1908f7e6d5'' = (None, Some (sample_user None))"
    by (simp add: sample_world_def)
  have l: "lastRequestAt (sample_user None) = None"
    by (simp add: sample_user_def)
  from deserialize_absent_lastRequestAt [OF f l] show ?thesis .
qed



text \<open>
  Claim C4, as stated, fails: the sample user without \<open>lastRequestAt\<close> is found by the
  store and is not stale in the sense of the specification, and \<open>deserialize\<close> issues
  no update and resolves to no user.
\<close>

theorem deserialize_fresh_absent_counterexample:
  "exec_findOne (sample_world (None, Some (sample_user None)) None) ''52d6a1f04c3b2a1908f7e6d5''
       = (None, Some (sample_user None))
   \<and> \<not> spec_stale sample_config
         (date_at_test (sample_world (None, Some (sample_user None)) None)) (sample_user None)
   \<and> fst (deserialize sample_config (sample_world (None, Some (sample_user None)) None)
         ''52d6a1f04c3b2a1908f7e6d5'')
       = [FindOne ''52d6a1f04c3b2a1908f7e6d5'']
   \<and> snd (deserialize sample_config (sample_world (None, Some (sample_user None)) None)
         ''52d6a1f04c3b2a1908f7e6d5'')
       \<noteq> (None, Some (sample_user None))"
  by (simp add: deserialize_def stale_def spec_stale_def sample_world_def sample_user_def)

text \<open>
  Claim C4, amended. For every identity found by the store whose \<open>lastRequestAt\<close> is
  present and at most the timeout in the past, \<open>deserialize\<close> issues, after the lookup,
  one update of \<open>lastRequestAt\<close> to the date read at that moment, and calls \<open>done\<close>
  with the outcome of that update and the identity: an error of the update is passed
  on, and without one the session resolves to the identity.
\<close>

theorem deserialize_fresh_refreshes:
  assumes "exec_findOne w ident = (None, Some u)"
    and "lastRequestAt u = Some t"
    and "date_at_test w - t \<le> session_timeout cfg"
  shows "deserialize cfg w ident
      = ([FindOne ident, Update (uid u) (date_at_update w)],
         exec_update w u (date_at_update w), Some u)
   \<and> (exec_update w u (date_at_update w) = Some e \<longrightarrow>
        snd (deserialize cfg w ident) = (Some e, Some u))
   \<and> (exec_update w u (date_at_update w) = None \<longrightarrow>
        snd (deserialize cfg w ident) = (None, Some u))"
proof -
  from assms(2,3) have "\<not> stale cfg (date_at_test w) u"
    by (simp add: stale_def)
  with assms(1) have "deserialize cfg w ident
      = ([FindOne ident, Update (uid u) (date_at_update w)],
         exec_update w u (date_at_update w), Some u)"
    by (simp add: deserialize_def)
  then show ?thesis by simp
qed

text \<open>
  Claim C4, amended, on the sample user, last seen one second ago under a timeout of five
  seconds, with an update that succeeds and with one that fails.
\<close>

theorem deserialize_fresh_refreshes_witness:
  "deserialize sample_config
     (sample_world (None, Some (sample_user (Some 1389790599000))) None)
     ''52d6a1f04c3b2a1908f7e6d5''
   = ([FindOne ''52d6a1f04c3b2a1908f7e6d5'',
       Update ''52d6a1f04c3b2a1908f7e6d5'' 1389790600002],
      None, Some (sample_user (Some 1389790599000)))
   \<and> snd (deserialize sample_config
     (sample_world (None, Some (sample_user (Some 1389790599000))) (Some (StoreError ''down'')))
     ''52d6a1f04c3b2a1908f7e6d5'')
   = (Some (StoreError ''down''), Some (sample_user (Some 1389790599000)))"
proof -
  let ?i = "''52d6a1f04c3b2a1908f7e6d5''"
  let ?u = "sample_user (Some 1389790599000)"
  let ?e = "StoreError ''down''"
  have f: "exec_findOne (sample_world (None, Some ?u) r) ?i = (None, Some ?u)" for r
    by (simp add: sample_world_def)
  have l: "lastRequestAt ?u = Some 1389790599000"
    by (simp add: sample_user_def)
  have t: "date_at_test (sample_world (None, Some ?u) r) - 1389790599000
      \<le> session_timeout sample_config" for r
    by (simp add: sample_world_def sample_config_def)
  have ok: "exec_update (sample_world (None, Some ?u) None) ?u
      (date_at_update (sample_world (None, Some ?u) None)) = None"
    by (simp add: sample_world_def)
  have ko: "exec_update (sample_world (None, Some ?u) (Some ?e)) ?u
      (date_at_update (sample_world (None, Some ?u) (Some ?e))) = Some ?e"
    by (simp add: sample_world_def)
  have d: "date_at_update (sample_world (None, Some ?u) None) = 1389790600002"
    and i: "uid ?u = ?i"
    by (simp_all add: sample_world_def sample_user_def)
  from deserialize_fresh_refreshes [OF f l t, of None ?e]
    deserialize_fresh_refreshes [OF f l t, of "Some ?e" ?e] ok ko d i
  show ?thesis by simp
qed

end
